theory Spec2Isabelle
  imports Complex_Main
begin

section \<open>reloader.py: the change watcher\<close>

text \<open>
  \<^verbatim>\<open>str.endswith\<close>: the argument is a suffix of the string.
\<close>

definition endswith :: "string \<Rightarrow> string \<Rightarrow> bool" where
  "endswith s suffix =
     (length suffix \<le> length s \<and> drop (length s - length suffix) s = suffix)"

text \<open>
  A watchdog file-system event, as far as the handler reads it: the kind of the event
  (\<^verbatim>\<open>event.event_type\<close>), \<^verbatim>\<open>event.is_directory\<close> and \<^verbatim>\<open>event.src_path\<close>.
\<close>

datatype event_type = Created | Modified | Deleted | Moved | Closed | Opened

record FileSystemEvent =
  event_type :: event_type
  is_directory :: bool
  src_path :: string

text \<open>
  \<^verbatim>\<open>RestartHandler\<close> has two fields. \<^verbatim>\<open>callback\<close> is set once and only ever called;
  the model keeps the mutable field \<^verbatim>\<open>last_reload\<close> in the record and writes a call of
  \<^verbatim>\<open>self.callback()\<close> as the effect \<open>Callback\<close> in the list of effects a method
  returns, in the order the source performs them. The owner of the handler runs the
  callback when it meets that effect.
\<close>

record RestartHandler =
  last_reload :: real

datatype handler_effect = Print string | Callback

text \<open>
  \<^verbatim>\<open>__init__\<close> reads the clock once: \<open>t0\<close> is the value of \<^verbatim>\<open>time.time()\<close> at
  construction.
\<close>

definition init_handler :: "real \<Rightarrow> RestartHandler" where
  "init_handler t0 = \<lparr>last_reload = t0\<rparr>"

text \<open>
  \<^verbatim>\<open>on_modified\<close> reads the clock at most twice: \<open>now\<close> is the reading compared with
  \<^verbatim>\<open>last_reload\<close> (line 20), \<open>later\<close> the reading stored after the callback has
  returned (line 23). The readings are inputs of the model; they are floating-point
  numbers in the source and real numbers here.
\<close>

definition on_modified ::
  "RestartHandler \<Rightarrow> FileSystemEvent \<Rightarrow> real \<Rightarrow> real \<Rightarrow> RestartHandler \<times> handler_effect list" where
  "on_modified self event now later =
     (if is_directory event then (self, [])
      else if endswith (src_path event) ''.py'' \<or> endswith (src_path event) ''.ini'' then
        (if now - last_reload self > 1 then
           (self\<lparr>last_reload := later\<rparr>,
            [Print (CHR 0x0A # ''[Reloader] detected change in '' @ src_path event), Callback])
         else (self, []))
      else (self, []))"

text \<open>
  \<^verbatim>\<open>RestartHandler\<close> overrides \<^verbatim>\<open>on_modified\<close> only. The other methods are the ones
  it inherits from watchdog's \<^verbatim>\<open>FileSystemEventHandler\<close>, which do nothing, and
  \<^verbatim>\<open>dispatch\<close> is the inherited method the observer calls: it selects the method by
  the kind of the event.
\<close>

definition on_any_other :: "RestartHandler \<Rightarrow> FileSystemEvent \<Rightarrow> RestartHandler \<times> handler_effect list" where
  "on_any_other self event = (self, [])"

definition dispatch ::
  "RestartHandler \<Rightarrow> FileSystemEvent \<Rightarrow> real \<Rightarrow> real \<Rightarrow> RestartHandler \<times> handler_effect list" where
  "dispatch self event now later =
     (case event_type event of
        Modified \<Rightarrow> on_modified self event now later
      | _ \<Rightarrow> on_any_other self event)"

text \<open>
  One delivery of an event to the handler: the event and the two clock readings taken
  while it is handled.
\<close>

record delivery =
  d_event :: FileSystemEvent
  t_check :: real
  t_update :: real

text \<open>
  The observer thread hands the events to the handler one after the other. \<open>fire_times\<close>
  lists, for a run of deliveries, the clock reading \<open>t_check\<close> of every call of the
  callback, in order.
\<close>

fun fire_times :: "RestartHandler \<Rightarrow> delivery list \<Rightarrow> real list" where
  "fire_times h [] = []"
| "fire_times h (d # ds) =
     (case dispatch h (d_event d) (t_check d) (t_update d) of
        (h', effects) \<Rightarrow> replicate (count_list effects Callback) (t_check d) @ fire_times h' ds)"

text \<open>
  The readings of a clock that never runs backwards, starting from the reading \<open>t\<close>.
\<close>

fun clock_monotone :: "real \<Rightarrow> delivery list \<Rightarrow> bool" where
  "clock_monotone t [] = True"
| "clock_monotone t (d # ds) =
     (t \<le> t_check d \<and> t_check d \<le> t_update d \<and> clock_monotone (t_update d) ds)"

text \<open>
  A qualifying event of the specification: a modification of a file whose path ends in
  a watched extension.
\<close>

definition qualifying :: "FileSystemEvent \<Rightarrow> bool" where
  "qualifying event =
     (event_type event = Modified \<and> \<not> is_directory event \<and>
      (endswith (src_path event) ''.py'' \<or> endswith (src_path event) ''.ini''))"


section \<open>reloader.py: the child process and the supervising loop\<close>

text \<open>
  A \<^verbatim>\<open>subprocess.Popen\<close> object. \<open>exit_status\<close> is what the operating system knows
  (\<open>None\<close> while the child runs, its exit code once it has terminated);
  \<open>returncode\<close> is the attribute of the object, filled in when \<^verbatim>\<open>poll\<close> or
  \<^verbatim>\<open>wait\<close> collects the exit code (reaps the child). The two flags record the
  signals sent through the object.
\<close>

record Popen =
  pid :: nat
  exit_status :: "int option"
  returncode :: "int option"
  sigterm_sent :: bool
  sigkill_sent :: bool

definition new_Popen :: "nat \<Rightarrow> Popen" where
  "new_Popen n =
     \<lparr>pid = n, exit_status = None, returncode = None, sigterm_sent = False, sigkill_sent = False\<rparr>"

definition poll :: "Popen \<Rightarrow> Popen \<times> int option" where
  "poll pr =
     (case returncode pr of
        Some c \<Rightarrow> (pr, Some c)
      | None \<Rightarrow>
          (case exit_status pr of
             None \<Rightarrow> (pr, None)
           | Some c \<Rightarrow> (pr\<lparr>returncode := Some c\<rparr>, Some c)))"

text \<open>
  \<^verbatim>\<open>terminate\<close> and \<^verbatim>\<open>kill\<close> poll first and send the signal only to a child that
  has not been reaped. Both return at once: they send the signal and do not wait for
  the child.
\<close>

definition terminate :: "Popen \<Rightarrow> Popen" where
  "terminate pr =
     (case poll pr of
        (pr', Some c) \<Rightarrow> pr'
      | (pr', None) \<Rightarrow> pr'\<lparr>sigterm_sent := True\<rparr>)"

definition kill :: "Popen \<Rightarrow> Popen" where
  "kill pr =
     (case poll pr of
        (pr', Some c) \<Rightarrow> pr'
      | (pr', None) \<Rightarrow> pr'\<lparr>sigkill_sent := True\<rparr>)"

text \<open>
  \<^verbatim>\<open>wait(timeout=2)\<close>. Whether a running child terminates within the two seconds is
  decided by the child: \<open>grace_exit\<close> is \<open>Some c\<close> when it terminates in time with
  exit code \<open>c\<close>, and \<open>None\<close> when it does not, in which case the call raises
  \<^verbatim>\<open>TimeoutExpired\<close>.
\<close>

datatype timeout_expired = TimeoutExpired

definition wait :: "int option \<Rightarrow> Popen \<Rightarrow> timeout_expired + Popen" where
  "wait grace_exit pr =
     (case poll pr of
        (pr', Some c) \<Rightarrow> Inr pr'
      | (pr', None) \<Rightarrow>
          (case grace_exit of
             Some c \<Rightarrow> Inr (pr'\<lparr>exit_status := Some c, returncode := Some c\<rparr>)
           | None \<Rightarrow> Inl TimeoutExpired))"

text \<open>
  The state of \<^verbatim>\<open>main\<close>: the local variable \<^verbatim>\<open>process\<close> (shared with the closure
  \<^verbatim>\<open>restart_process\<close>), the handler, the observer and where control is. \<open>spawned\<close>
  counts the \<^verbatim>\<open>Popen\<close> objects created so far and numbers them; \<open>dropped\<close> holds
  the objects that \<^verbatim>\<open>process\<close> referred to before it was assigned again; \<open>trace\<close>
  is the sequence of calls with an effect outside the program, in the order made.
  \<open>restarting\<close> holds while the observer thread is inside \<^verbatim>\<open>restart_process\<close>, between
  the stop of the old child and the start of the new one.
\<close>

datatype observer_state = Observer_idle | Observer_started | Observer_stopped

datatype control = Looping | Returned | Raised

datatype call =
    Stdout string
  | Popen_new nat
  | Popen_terminate nat
  | Popen_wait nat
  | Popen_kill nat
  | Observer_start
  | Observer_stop
  | Observer_join

record reloader =
  spawned :: nat
  process :: "Popen option"
  dropped :: "Popen list"
  event_handler :: "RestartHandler option"
  observer :: observer_state
  control :: control
  trace :: "call list"
  restarting :: bool

text \<open>
  \<^verbatim>\<open>run_app\<close> starts \<^verbatim>\<open>launcher.py\<close> under the interpreter that runs the reloader
  itself and returns the new object. (The comment in the source names \<^verbatim>\<open>main.py\<close>; the
  command is \<^verbatim>\<open>launcher.py\<close>.)
\<close>

definition run_app :: "reloader \<Rightarrow> reloader \<times> Popen" where
  "run_app s =
     (s\<lparr>spawned := Suc (spawned s), trace := trace s @ [Popen_new (spawned s)]\<rparr>,
      new_Popen (spawned s))"

text \<open>
  The assignment \<^verbatim>\<open>process = run_app()\<close>: the variable refers to the new object, and
  the object it referred to is no longer reachable from the program.
\<close>

definition assign_process :: "Popen \<Rightarrow> reloader \<Rightarrow> reloader" where
  "assign_process pr s =
     s\<lparr>process := Some pr,
       dropped := dropped s @ (case process s of None \<Rightarrow> [] | Some old \<Rightarrow> [old])\<rparr>"

text \<open>
  \<^verbatim>\<open>restart_process\<close>, lines 42 to 53, in its two parts. \<open>stop_child\<close> is lines 44
  to 51: the message and the stop of the current child. A \<^verbatim>\<open>Popen\<close> object is always
  true, so \<^verbatim>\<open>if process:\<close> asks whether the variable holds one. Line 53 then starts
  the new child and assigns it.
\<close>

definition stop_child :: "int option \<Rightarrow> reloader \<Rightarrow> reloader" where
  "stop_child grace_exit s =
     (let s1 = s\<lparr>trace := trace s @ [Stdout ''[Reloader] Restarting app...'']\<rparr>
      in case process s1 of
           None \<Rightarrow> s1
         | Some pr \<Rightarrow>
             (let pr1 = terminate pr;
                  s' = s1\<lparr>process := Some pr1,
                          trace := trace s1 @ [Popen_terminate (pid pr), Popen_wait (pid pr)]\<rparr>
              in case wait grace_exit pr1 of
                   Inr pr2 \<Rightarrow> s'\<lparr>process := Some pr2\<rparr>
                 | Inl TimeoutExpired \<Rightarrow>
                     s'\<lparr>process := Some (kill pr1),
                        trace := trace s' @ [Popen_kill (pid pr)]\<rparr>))"

definition restart_process :: "int option \<Rightarrow> reloader \<Rightarrow> reloader" where
  "restart_process grace_exit s =
     (case run_app (stop_child grace_exit s) of (s3, pr') \<Rightarrow> assign_process pr' s3)"

text \<open>
  The observer thread delivers an event: it calls \<^verbatim>\<open>dispatch\<close> of the scheduled
  handler and the effects happen in order, the callback being \<^verbatim>\<open>restart_process\<close>
  (line 55). \<open>grace_exit\<close> is the answer of the current child to a termination request,
  should one be sent.
\<close>

fun perform :: "int option \<Rightarrow> handler_effect \<Rightarrow> reloader \<Rightarrow> reloader" where
  "perform grace_exit (Print message) s = s\<lparr>trace := trace s @ [Stdout message]\<rparr>"
| "perform grace_exit Callback s = restart_process grace_exit s"

definition deliver ::
  "FileSystemEvent \<Rightarrow> real \<Rightarrow> real \<Rightarrow> int option \<Rightarrow> reloader \<Rightarrow> reloader" where
  "deliver event now later grace_exit s =
     (case event_handler s of
        None \<Rightarrow> s
      | Some h \<Rightarrow>
          (case dispatch h event now later of
             (h', effects) \<Rightarrow> (fold (perform grace_exit) effects s)\<lparr>event_handler := Some h'\<rparr>))"

text \<open>
  The main thread runs its loop while the observer thread handles an event, and nothing
  keeps a pass of the loop from falling inside a restart. The same delivery is therefore
  also given in two halves. The first half is \<^verbatim>\<open>on_modified\<close> up to the end of
  \<open>stop_child\<close>: the test against \<^verbatim>\<open>last_reload\<close>, the two messages and the stop of
  the current child. The second half is line 53 of \<^verbatim>\<open>restart_process\<close> and line 23 of
  \<^verbatim>\<open>on_modified\<close>: the new child is started and assigned, and \<^verbatim>\<open>last_reload\<close> is
  set. The first half only needs the effects that \<open>dispatch\<close> returns, which do not
  depend on the second clock reading.
\<close>

definition begin_restart :: "int option \<Rightarrow> reloader \<Rightarrow> reloader" where
  "begin_restart grace_exit s = (stop_child grace_exit s)\<lparr>restarting := True\<rparr>"

definition finish_restart :: "reloader \<Rightarrow> reloader" where
  "finish_restart s =
     (case run_app s of (s3, pr') \<Rightarrow> (assign_process pr' s3)\<lparr>restarting := False\<rparr>)"

fun begin_effect :: "int option \<Rightarrow> handler_effect \<Rightarrow> reloader \<Rightarrow> reloader" where
  "begin_effect grace_exit (Print message) s = s\<lparr>trace := trace s @ [Stdout message]\<rparr>"
| "begin_effect grace_exit Callback s = begin_restart grace_exit s"

definition begin_delivery :: "FileSystemEvent \<Rightarrow> real \<Rightarrow> int option \<Rightarrow> reloader \<Rightarrow> reloader" where
  "begin_delivery event now grace_exit s =
     (case event_handler s of
        None \<Rightarrow> s
      | Some h \<Rightarrow> fold (begin_effect grace_exit) (snd (dispatch h event now now)) s)"

definition finish_delivery :: "real \<Rightarrow> reloader \<Rightarrow> reloader" where
  "finish_delivery later s =
     (finish_restart s)
       \<lparr>event_handler := map_option (\<lambda>h. h\<lparr>last_reload := later\<rparr>) (event_handler s)\<rparr>"

text \<open>
  One pass of the \<^verbatim>\<open>while True\<close> loop after its \<^verbatim>\<open>time.sleep(1)\<close>, lines 63 to
  73. On a clean exit the loop is left, \<^verbatim>\<open>observer.join()\<close> follows and \<^verbatim>\<open>main\<close>
  returns.
\<close>

definition loop_body :: "reloader \<Rightarrow> reloader" where
  "loop_body s =
     (case process s of
        None \<Rightarrow> s\<lparr>control := Raised\<rparr>
      | Some pr \<Rightarrow>
          (case poll pr of
             (pr', None) \<Rightarrow> s\<lparr>process := Some pr'\<rparr>
           | (pr', Some c) \<Rightarrow>
               if c = 0 then
                 s\<lparr>process := Some pr',
                   trace := trace s @
                     [Stdout ''[Reloader] App exited cleanly.'', Observer_stop, Observer_join],
                   observer := Observer_stopped,
                   control := Returned\<rparr>
               else s\<lparr>process := Some pr'\<rparr>))"

text \<open>The handler of \<^verbatim>\<open>KeyboardInterrupt\<close>, lines 74 to 79.\<close>

definition interrupt :: "reloader \<Rightarrow> reloader" where
  "interrupt s =
     (let s1 = s\<lparr>observer := Observer_stopped, trace := trace s @ [Observer_stop]\<rparr>;
          s2 = (case process s1 of
                  None \<Rightarrow> s1
                | Some pr \<Rightarrow>
                    s1\<lparr>process := Some (terminate pr),
                       trace := trace s1 @ [Popen_terminate (pid pr)]\<rparr>)
      in s2\<lparr>trace := trace s2 @ [Observer_join], control := Returned\<rparr>)"

text \<open>
  \<^verbatim>\<open>main\<close> up to the loop, lines 29 to 59. \<open>watchdog_found\<close> says whether
  \<^verbatim>\<open>import watchdog\<close> succeeds; \<open>t0\<close> is the clock reading when the handler is
  constructed. The result is the state on entry to the loop, or the state in which
  \<^verbatim>\<open>main\<close> has returned.
\<close>

definition main :: "bool \<Rightarrow> real \<Rightarrow> reloader" where
  "main watchdog_found t0 =
     (let s0 = \<lparr>spawned = 0, process = None, dropped = [], event_handler = None,
                observer = Observer_idle, control = Returned,
                trace = [Stdout ''[Reloader] Starting development monitor...''],
                restarting = False\<rparr>
      in if \<not> watchdog_found then
           s0\<lparr>trace := trace s0 @
                [Stdout ''[Reloader] Error: 'watchdog' library not found.'',
                 Stdout ''Please install it: pip install watchdog'']\<rparr>
         else
           (case run_app s0 of
              (s1, pr) \<Rightarrow>
                (assign_process pr s1)
                  \<lparr>event_handler := Some (init_handler t0),
                   observer := Observer_started,
                   control := Looping,
                   trace := trace s1 @ [Observer_start]\<rparr>))"

text \<open>
  The program \<^verbatim>\<open>reloader.py\<close> as it is run. Lines 5 and 6 import from watchdog when
  the module is loaded, before \<^verbatim>\<open>main\<close> is called in line 82: where watchdog is not
  installed the import raises \<^verbatim>\<open>ModuleNotFoundError\<close>, nothing catches it and the
  program ends before \<^verbatim>\<open>main\<close> runs, with nothing written to standard output. Where
  the import succeeds, so does the \<^verbatim>\<open>import watchdog\<close> inside \<^verbatim>\<open>main\<close>; the branch
  of \<^verbatim>\<open>main\<close> for a missing watchdog is never taken by the program.
\<close>

definition reloader_py :: "bool \<Rightarrow> real \<Rightarrow> reloader" where
  "reloader_py watchdog_found t0 =
     (if \<not> watchdog_found then
        \<lparr>spawned = 0, process = None, dropped = [], event_handler = None,
         observer = Observer_idle, control = Raised, trace = [], restarting = False\<rparr>
      else main watchdog_found t0)"

text \<open>
  What happens next to a reloader: the main thread makes one pass of its loop
  (\<open>Tick\<close>), the observer thread delivers an event, the current child terminates on its
  own with some exit code, or the operator interrupts. The main thread only acts while
  it is in the loop, and the observer only takes up an event between
  \<^verbatim>\<open>observer.start()\<close> and \<^verbatim>\<open>observer.stop()\<close>. \<open>Deliver\<close> is a delivery that
  no pass of the loop falls into. \<open>Begin\<close> and \<open>Finish\<close> are the two halves of a
  delivery, with whatever the main thread does in between; a delivery that has begun is
  finished also after \<^verbatim>\<open>observer.stop()\<close>, since \<^verbatim>\<open>observer.join()\<close> waits for it.
\<close>

datatype event =
    Tick
  | Deliver FileSystemEvent real real "int option"
  | ChildExit int
  | KeyboardInterrupt
  | Begin FileSystemEvent real "int option"
  | Finish real

definition child_exits :: "int \<Rightarrow> Popen \<Rightarrow> Popen" where
  "child_exits c pr = (case exit_status pr of None \<Rightarrow> pr\<lparr>exit_status := Some c\<rparr> | Some c' \<Rightarrow> pr)"

fun step :: "reloader \<Rightarrow> event \<Rightarrow> reloader" where
  "step s Tick = (if control s = Looping then loop_body s else s)"
| "step s (Deliver ev now later grace_exit) =
     (if observer s = Observer_started then deliver ev now later grace_exit s else s)"
| "step s (ChildExit c) = s\<lparr>process := map_option (child_exits c) (process s)\<rparr>"
| "step s KeyboardInterrupt = (if control s = Looping then interrupt s else s)"
| "step s (Begin ev now grace_exit) =
     (if observer s = Observer_started \<and> \<not> restarting s
      then begin_delivery ev now grace_exit s else s)"
| "step s (Finish later) = (if restarting s then finish_delivery later s else s)"

fun run :: "reloader \<Rightarrow> event list \<Rightarrow> reloader" where
  "run s [] = s"
| "run s (e # es) = run (step s e) es"

text \<open>
  An event that is neither an operator interrupt nor a delivery, whole or in halves, on
  which the handler \<open>h\<close> calls its callback.
\<close>

fun quiet :: "RestartHandler \<Rightarrow> event \<Rightarrow> bool" where
  "quiet h Tick = True"
| "quiet h (Deliver ev now later grace_exit) = (Callback \<notin> set (snd (dispatch h ev now later)))"
| "quiet h (ChildExit c) = True"
| "quiet h KeyboardInterrupt = False"
| "quiet h (Begin ev now grace_exit) = (Callback \<notin> set (snd (dispatch h ev now now)))"
| "quiet h (Finish later) = False"

text \<open>
  The children the reloader has started and not reaped: the \<^verbatim>\<open>Popen\<close> objects whose
  exit code has not been collected.
\<close>

definition unreaped :: "reloader \<Rightarrow> Popen list" where
  "unreaped s =
     filter (\<lambda>pr. returncode pr = None)
       (dropped s @ (case process s of None \<Rightarrow> [] | Some pr \<Rightarrow> [pr]))"


section \<open>launcher.py: the dependency installer\<close>

text \<open>
  \<^verbatim>\<open>str.strip()\<close> removes the white space at both ends; the characters are the ASCII
  ones for which \<^verbatim>\<open>str.isspace\<close> holds.
\<close>

definition isspace :: "char \<Rightarrow> bool" where
  "isspace c =
     (c \<in> set [CHR 0x09, CHR 0x0A, CHR 0x0B, CHR 0x0C, CHR 0x0D,
                CHR 0x1C, CHR 0x1D, CHR 0x1E, CHR 0x1F, CHR 0x20])"

definition strip :: "string \<Rightarrow> string" where
  "strip s = rev (dropWhile isspace (rev (dropWhile isspace s)))"

text \<open>
  What \<^verbatim>\<open>DependencyInstaller.run\<close> does that can be seen from outside: the signals it
  emits (\<^verbatim>\<open>progress\<close> carries a string, \<^verbatim>\<open>finished\<close> a boolean), the call of
  \<^verbatim>\<open>subprocess.Popen\<close> with its argument list, and an exception that leaves the
  method.
\<close>

datatype installer_effect =
    Progress string
  | Finished bool
  | Call_Popen "string list"
  | Uncaught string

text \<open>
  The outcome of \<^verbatim>\<open>open("requirements.txt", "r")\<close> and of reading the file: the file is
  missing, another error is raised (its message), or the lines are read.
\<close>

datatype open_result = FileNotFoundError | Open_raises string | Opened "string list"

text \<open>
  A read from a pipe of the installer, opened with \<^verbatim>\<open>text=True\<close>: it returns a string,
  or it raises (the text of the exception), as it does when the bytes cannot be decoded.
\<close>

datatype read_result = Read string | Read_raises string

text \<open>
  The outcome of the \<^verbatim>\<open>Popen\<close> call: it raises (the text of the exception, as
  \<^verbatim>\<open>str(e)\<close>), or the installer starts. A started installer is described by what the
  read loop observes in each pass, the outcome of \<^verbatim>\<open>readline()\<close> and the value
  \<^verbatim>\<open>poll()\<close> would return in that pass, and by the outcome of \<^verbatim>\<open>stderr.read()\<close>.
\<close>

datatype popen_result =
    Popen_raises string
  | Popen_started "(read_result \<times> int option) list" read_result

text \<open>
  The loop of lines 47 to 52. It ends in the first pass in which \<^verbatim>\<open>readline()\<close>
  returns the empty string and \<^verbatim>\<open>poll()\<close> an exit code; the result is then the
  progress emitted and that exit code, which is what \<^verbatim>\<open>poll()\<close> returns again in line
  54. A \<^verbatim>\<open>readline()\<close> that raises leaves the loop with the exception, after the
  progress emitted so far. The result is \<open>None\<close> when no pass ends the loop.
\<close>

fun read_loop ::
  "(read_result \<times> int option) list \<Rightarrow> (installer_effect list \<times> (string + int)) option" where
  "read_loop [] = None"
| "read_loop ((Read_raises e, polled) # rest) = Some ([], Inl e)"
| "read_loop ((Read output, polled) # rest) =
     (case (if output = [] then polled else None) of
        Some rc \<Rightarrow> Some ([], Inr rc)
      | None \<Rightarrow>
          (case read_loop rest of
             None \<Rightarrow> None
           | Some (shown, result) \<Rightarrow>
               Some ((if output \<noteq> [] then [Progress (strip output)] else []) @ shown, result)))"

text \<open>
  \<^verbatim>\<open>DependencyInstaller.run\<close>. The list \<^verbatim>\<open>required_packages\<close> that lines 16 to 31
  build from the file is not used afterwards (the loop over it is \<^verbatim>\<open>pass\<close>), so only
  the outcome of opening the file matters. \<open>executable\<close> is \<^verbatim>\<open>sys.executable\<close>.
  The \<^verbatim>\<open>try\<close> of lines 38 to 65 holds the \<^verbatim>\<open>Popen\<close> call, the read loop and
  \<^verbatim>\<open>stderr.read()\<close>, and its \<^verbatim>\<open>except Exception\<close> handles an exception of any of
  them in the same way. The result is \<open>None\<close> when the method does not return.
\<close>

definition pip_command :: "string \<Rightarrow> string list" where
  "pip_command executable = [executable, ''-m'', ''pip'', ''install'', ''-r'', ''requirements.txt'']"

definition installer_run ::
  "string \<Rightarrow> open_result \<Rightarrow> popen_result \<Rightarrow> installer_effect list option" where
  "installer_run executable manifest popen =
     (case manifest of
        FileNotFoundError \<Rightarrow>
          Some [Progress ''Checking dependencies...'',
                Progress ''requirements.txt not found. Skipping check.'',
                Finished True]
      | Open_raises e \<Rightarrow> Some [Progress ''Checking dependencies...'', Uncaught e]
      | Opened lines \<Rightarrow>
          (let before =
                 [Progress ''Checking dependencies...'',
                  Progress ''Installing/Verifying dependencies via pip...'',
                  Call_Popen (pip_command executable)];
               failed = (\<lambda>e. [Progress (''Failed to run pip: '' @ e), Finished False])
           in case popen of
                Popen_raises e \<Rightarrow> Some (before @ failed e)
              | Popen_started passes stderr \<Rightarrow>
                  (case read_loop passes of
                     None \<Rightarrow> None
                   | Some (shown, Inl e) \<Rightarrow> Some (before @ shown @ failed e)
                   | Some (shown, Inr rc) \<Rightarrow>
                       if rc = 0 then
                         Some (before @ shown @
                               [Progress ''Dependencies installed successfully.'', Finished True])
                       else
                         (case stderr of
                            Read text \<Rightarrow>
                              Some (before @ shown @
                                    [Progress (''Error: '' @ text), Finished False])
                          | Read_raises e \<Rightarrow> Some (before @ shown @ failed e)))))"


section \<open>Example inputs\<close>

text \<open>Concrete events, runs and states on which the statements below are evaluated.\<close>

definition modified_file :: "string \<Rightarrow> FileSystemEvent" where
  "modified_file path = \<lparr>event_type = Modified, is_directory = False, src_path = path\<rparr>"

definition created_file :: "string \<Rightarrow> FileSystemEvent" where
  "created_file path = \<lparr>event_type = Created, is_directory = False, src_path = path\<rparr>"

text \<open>
  A handler constructed at time 0; two saves of \<^verbatim>\<open>app.py\<close> 0.2 apart, the first of
  which restarts the application, and a save of \<^verbatim>\<open>config.ini\<close> 1.5 after the first.
\<close>

definition example_burst :: "delivery list" where
  "example_burst =
     [\<lparr>d_event = modified_file ''app.py'', t_check = 2, t_update = 21 / 10\<rparr>,
      \<lparr>d_event = modified_file ''app.py'', t_check = 11 / 5, t_update = 11 / 5\<rparr>,
      \<lparr>d_event = modified_file ''config.ini'', t_check = 7 / 2, t_update = 18 / 5\<rparr>]"

text \<open>The reloader in its loop, after the application has exited with code 0.\<close>

definition clean_exit_example :: reloader where
  "clean_exit_example = step (main True 0) (ChildExit 0)"



text \<open>
  A freshly started reloader whose application exits with code 0, with a save of
  \<^verbatim>\<open>app.py\<close> before the next pass of the loop; and the same with the pass of the loop
  falling inside the restart that the save sets off.
\<close>

definition change_before_poll :: "event list" where
  "change_before_poll = [ChildExit 0, Deliver (modified_file ''app.py'') 5 5 None, Tick]"

definition poll_inside_restart :: "event list" where
  "poll_inside_restart =
     [ChildExit 0, Begin (modified_file ''app.py'') 5 None, Tick, Finish 6]"

text \<open>
  A handler constructed at time 0 and three saves of \<^verbatim>\<open>app.py\<close>, at 0.5, 1 and 1.5.
\<close>

definition early_save :: "delivery list" where
  "early_save =
     [\<lparr>d_event = modified_file ''app.py'', t_check = 1 / 2, t_update = 1 / 2\<rparr>,
      \<lparr>d_event = modified_file ''app.py'', t_check = 1, t_update = 1\<rparr>,
      \<lparr>d_event = modified_file ''app.py'', t_check = 3 / 2, t_update = 2\<rparr>]"

text \<open>
  The reloader in its loop after the application has exited with code 1 and the loop has
  seen it; events that follow without a change of a watched file; and the child as the
  loop then knows it.
\<close>

definition crashed_child :: Popen where
  "crashed_child =
     \<lparr>pid = 0, exit_status = Some 1, returncode = Some 1, sigterm_sent = False,
      sigkill_sent = False\<rparr>"

definition crash_example :: reloader where
  "crash_example = step (step (main True 0) (ChildExit 1)) Tick"

definition quiet_events :: "event list" where
  "quiet_events =
     [Tick, Deliver (created_file ''app.py'') 5 5 None,
      Deliver (modified_file ''notes.txt'') 6 6 None, ChildExit 0, Tick]"

text \<open>
  A restart of an application that does not terminate within the two seconds after the
  termination request.
\<close>

definition stubborn_restart :: reloader where
  "stubborn_restart = step (main True 0) (Deliver (modified_file ''app.py'') 5 7 None)"

text \<open>
  An installer that prints one line, closes its output and then exits with code 1.
\<close>

definition failing_install :: "(read_result \<times> int option) list" where
  "failing_install =
     [(Read (''Collecting nosuchpkg'' @ [CHR 0x0A]), None),
      (Read [], None),
      (Read [], Some 1)]"

text \<open>
  An installer that prints nothing and exits with code 1, and whose standard error is
  not valid text in the encoding of the pipe.
\<close>

definition silent_failure :: "(read_result \<times> int option) list" where
  "silent_failure = [(Read [], Some 1)]"

definition undecodable :: read_result where
  "undecodable = Read_raises ''codec can't decode byte 0xff in position 0''"


section \<open>The debounce of the change watcher\<close>

text \<open>
  What \<open>dispatch\<close> does with a qualifying event, and the two outcomes it can have for
  any event.
\<close>

lemma on_modified_qualifying:
  "qualifying event \<Longrightarrow>
   dispatch h event now later =
     (if now - last_reload h \<le> 1 then (h, [])
      else (h\<lparr>last_reload := later\<rparr>,
            [Print (CHR 0x0A # ''[Reloader] detected change in '' @ src_path event), Callback]))"
  by (auto simp: qualifying_def dispatch_def on_modified_def)

lemma dispatch_cases:
  "dispatch h event now later = (h, []) \<or>
   (1 < now - last_reload h \<and> qualifying event \<and>
    dispatch h event now later =
      (h\<lparr>last_reload := later\<rparr>,
       [Print (CHR 0x0A # ''[Reloader] detected change in '' @ src_path event), Callback]))"
  by (auto simp: qualifying_def dispatch_def on_modified_def on_any_other_def split: event_type.splits)

lemma quiet_dispatch:
  "Callback \<notin> set (snd (dispatch h ev now later)) \<Longrightarrow> dispatch h ev now later = (h, [])"
  using dispatch_cases [of h ev now later] by auto

lemma firing_dispatch:
  "Callback \<in> set (snd (dispatch h ev now later)) \<Longrightarrow>
   dispatch h ev now later =
     (h\<lparr>last_reload := later\<rparr>,
      [Print (CHR 0x0A # ''[Reloader] detected change in '' @ src_path ev), Callback])"
  using dispatch_cases [of h ev now later] by auto

lemma dispatch_effects:
  "snd (dispatch h ev now later) = snd (dispatch h ev now later')"
  by (simp add: dispatch_def on_modified_def on_any_other_def split: event_type.splits)

text \<open>
  Under a clock that does not run backwards, every call of the callback comes more than
  one time unit after the value of \<open>last_reload\<close> at the start, and more than one time
  unit after the call before it.
\<close>

lemma fire_times_after:
  "last_reload h \<le> t0 \<Longrightarrow> clock_monotone t0 ds \<Longrightarrow>
   (\<forall>t \<in> set (fire_times h ds). last_reload h + 1 < t \<and> t0 \<le> t) \<and>
   sorted_wrt (\<lambda>a b. 1 < b - a) (fire_times h ds)"
proof (induction ds arbitrary: h t0)
  case Nil
  then show ?case by simp
next
  case (Cons d ds)
  from Cons.prems have t: "last_reload h \<le> t_check d" "t0 \<le> t_check d" "t_check d \<le> t_update d"
    and mono: "clock_monotone (t_update d) ds"
    by auto
  consider (quiet) "dispatch h (d_event d) (t_check d) (t_update d) = (h, [])"
    | (fire) "1 < t_check d - last_reload h"
        "dispatch h (d_event d) (t_check d) (t_update d) =
          (h\<lparr>last_reload := t_update d\<rparr>,
           [Print (CHR 0x0A # ''[Reloader] detected change in '' @ src_path (d_event d)), Callback])"
    using dispatch_cases [of h "d_event d" "t_check d" "t_update d"] by blast
  then show ?case
  proof cases
    case quiet
    from t have "last_reload h \<le> t_update d" by simp
    from Cons.IH [OF this mono] quiet t show ?thesis by auto
  next
    case fire
    have "last_reload (h\<lparr>last_reload := t_update d\<rparr>) \<le> t_update d" by simp
    from Cons.IH [OF this mono] fire t show ?thesis by auto
  qed
qed

lemma spaced_window:
  "sorted_wrt (\<lambda>a b. 1 < b - a) (ts :: real list) \<Longrightarrow> w \<le> 1 \<Longrightarrow>
   length (filter (\<lambda>t. a \<le> t \<and> t \<le> a + w) ts) \<le> 1"
proof (induction ts)
  case Nil
  then show ?case by simp
next
  case (Cons t ts)
  show ?case
  proof (cases "a \<le> t \<and> t \<le> a + w")
    case True
    with Cons.prems have "\<forall>u \<in> set ts. \<not> (a \<le> u \<and> u \<le> a + w)" by force
    then have "filter (\<lambda>t. a \<le> t \<and> t \<le> a + w) ts = []" by (simp add: filter_empty_conv)
    with True show ?thesis by simp
  next
    case False
    from Cons.prems have "sorted_wrt (\<lambda>a b. 1 < b - a) ts" by simp
    from Cons.IH [OF this Cons.prems(2)] False show ?thesis by auto
  qed
qed

lemma spaced_nth:
  "sorted_wrt (\<lambda>a b. 1 < b - a) (ts :: real list) \<Longrightarrow> i < j \<Longrightarrow> j < length ts \<Longrightarrow> (1::real) < ts ! j - ts ! i"
  by (simp add: sorted_wrt_iff_nth_less)

lemma fire_times_append:
  "fire_times h (xs @ d # ys) = fire_times h (xs @ ys)"
  if "\<forall>h'. dispatch h' (d_event d) (t_check d) (t_update d) = (h', [])"
  using that by (induction xs arbitrary: h) (auto split: prod.splits)

text \<open>
  Claim C1. For every sequence of qualifying events (modifications of files whose path
  ends in \<^verbatim>\<open>.py\<close> or \<^verbatim>\<open>.ini\<close>) handled under a clock that does not run backwards:
  an event whose clock reading is at most 1.0 after \<open>last_reload\<close> is discarded, with
  no effect and no change of state; any other event calls the callback exactly once and
  then sets \<open>last_reload\<close> to the clock reading taken after the call. Consequently any
  two calls of the callback are more than 1.0 apart, and a window of length at most 1.0
  holds at most one call.
\<close>

theorem debounce_gate_and_spacing:
  assumes "\<forall>d \<in> set ds. qualifying (d_event d)"
    and "clock_monotone (last_reload h) ds"
  shows "(\<forall>d \<in> set ds. \<forall>h'.
            dispatch h' (d_event d) (t_check d) (t_update d) =
              (if t_check d - last_reload h' \<le> 1 then (h', [])
               else (h'\<lparr>last_reload := t_update d\<rparr>,
                     [Print (CHR 0x0A # ''[Reloader] detected change in '' @ src_path (d_event d)),
                      Callback]))) \<and>
         (\<forall>i j. i < j \<and> j < length (fire_times h ds) \<longrightarrow>
            1 < fire_times h ds ! j - fire_times h ds ! i) \<and>
         (\<forall>a w. w \<le> 1 \<longrightarrow>
            length (filter (\<lambda>t. a \<le> t \<and> t \<le> a + w) (fire_times h ds)) \<le> 1)"
proof -
  have spaced: "sorted_wrt (\<lambda>a b. 1 < b - a) (fire_times h ds)"
    using fire_times_after [of h "last_reload h" ds] assms(2) by simp
  have gate: "\<forall>d \<in> set ds. \<forall>h'.
            dispatch h' (d_event d) (t_check d) (t_update d) =
              (if t_check d - last_reload h' \<le> 1 then (h', [])
               else (h'\<lparr>last_reload := t_update d\<rparr>,
                     [Print (CHR 0x0A # ''[Reloader] detected change in '' @ src_path (d_event d)),
                      Callback]))"
    using assms(1) by (simp add: on_modified_qualifying)
  have nth: "\<forall>i j. i < j \<and> j < length (fire_times h ds) \<longrightarrow>
            1 < fire_times h ds ! j - fire_times h ds ! i"
    using spaced_nth [OF spaced] by blast
  have window: "\<forall>a w. w \<le> 1 \<longrightarrow>
            length (filter (\<lambda>t. a \<le> t \<and> t \<le> a + w) (fire_times h ds)) \<le> 1"
    using spaced_window [OF spaced] by blast
  from gate nth window show ?thesis by blast
qed

lemma example_burst_fire_times: "fire_times (init_handler 0) example_burst = [2, 7 / 2]"
  by (simp add: example_burst_def modified_file_def init_handler_def dispatch_def
      on_modified_def endswith_def)

theorem debounce_gate_and_spacing_witness:
  "list_all (\<lambda>d. qualifying (d_event d)) example_burst \<and>
   clock_monotone (last_reload (init_handler 0)) example_burst \<and>
   fire_times (init_handler 0) example_burst = [2, 7 / 2] \<and>
   1 < fire_times (init_handler 0) example_burst ! 1 - fire_times (init_handler 0) example_burst ! 0 \<and>
   length (filter (\<lambda>t. 2 \<le> t \<and> t \<le> 2 + 1) (fire_times (init_handler 0) example_burst)) \<le> 1"
proof -
  have q: "\<forall>d \<in> set example_burst. qualifying (d_event d)"
    by (simp add: example_burst_def modified_file_def qualifying_def endswith_def)
  have m: "clock_monotone (last_reload (init_handler 0)) example_burst"
    by (simp add: example_burst_def init_handler_def)
  note r = debounce_gate_and_spacing [OF q m]
  from r have "1 < fire_times (init_handler 0) example_burst ! 1 - fire_times (init_handler 0) example_burst ! 0"
    by (simp add: example_burst_fire_times)
  moreover from r have "(1::real) \<le> 1 \<longrightarrow>
      length (filter (\<lambda>t. 2 \<le> t \<and> t \<le> 2 + 1) (fire_times (init_handler 0) example_burst)) \<le> 1"
    by blast
  ultimately show ?thesis using q m example_burst_fire_times by (simp add: list_all_iff)
qed

text \<open>
  Claim C8. An event for a directory, or for a path that ends neither in \<^verbatim>\<open>.py\<close> nor
  in \<^verbatim>\<open>.ini\<close>, never leads to a call of the callback, whatever its kind, the state
  of the handler and the clock readings: the handler has no effect and keeps its state,
  and the calls of the callback in a run are the same with and without such an event at
  any place in the run.
\<close>

theorem unwatched_or_directory_never_signals:
  assumes "is_directory event \<or>
           \<not> (endswith (src_path event) ''.py'' \<or> endswith (src_path event) ''.ini'')"
  shows "dispatch h event now later = (h, []) \<and>
         fire_times h0 (before @ \<lparr>d_event = event, t_check = now, t_update = later\<rparr> # after) =
         fire_times h0 (before @ after)"
proof -
  have quiet: "dispatch h' event now later = (h', [])" for h'
    using assms by (auto simp: dispatch_def on_modified_def on_any_other_def split: event_type.splits)
  then show ?thesis by (simp add: fire_times_append)
qed

theorem unwatched_or_directory_never_signals_witness:
  "(is_directory (modified_file ''notes.txt'') \<or>
    \<not> (endswith (src_path (modified_file ''notes.txt'')) ''.py'' \<or>
       endswith (src_path (modified_file ''notes.txt'')) ''.ini'')) \<and>
   dispatch (init_handler 0) (modified_file ''notes.txt'') 10 10 = (init_handler 0, []) \<and>
   fire_times (init_handler 0)
     ([] @ \<lparr>d_event = modified_file ''notes.txt'', t_check = 10, t_update = 10\<rparr> # example_burst) =
   [2, 7 / 2]"
proof -
  have u: "is_directory (modified_file ''notes.txt'') \<or>
    \<not> (endswith (src_path (modified_file ''notes.txt'')) ''.py'' \<or>
       endswith (src_path (modified_file ''notes.txt'')) ''.ini'')"
    by (simp add: modified_file_def endswith_def)
  from unwatched_or_directory_never_signals
         [OF u, where h = "init_handler 0" and now = 10 and later = 10
            and ?h0.0 = "init_handler 0" and before = "[]" and after = example_burst]
    u example_burst_fire_times
  show ?thesis by simp
qed


text \<open>
  Claim C10. The debounce clock starts when the handler is constructed:
  \<open>last_reload\<close> is the clock reading at construction, so a qualifying modification
  whose clock reading is at most 1.0 after the construction has no effect, and under a
  clock that does not run backwards every call of the callback comes strictly more than
  1.0 after the construction.
\<close>

theorem debounce_clock_starts_at_construction:
  assumes "clock_monotone t0 ds"
  shows "last_reload (init_handler t0) = t0 \<and>
         (\<forall>event now later.
            qualifying event \<and> now - t0 \<le> 1 \<longrightarrow>
            dispatch (init_handler t0) event now later = (init_handler t0, [])) \<and>
         (\<forall>t \<in> set (fire_times (init_handler t0) ds). t0 + 1 < t)"
proof -
  have l: "last_reload (init_handler t0) = t0" by (simp add: init_handler_def)
  have g: "\<forall>event now later.
            qualifying event \<and> now - t0 \<le> 1 \<longrightarrow>
            dispatch (init_handler t0) event now later = (init_handler t0, [])"
    by (simp add: on_modified_qualifying l)
  have "last_reload (init_handler t0) \<le> t0" by (simp add: l)
  from fire_times_after [OF this assms] l
  have "\<forall>t \<in> set (fire_times (init_handler t0) ds). t0 + 1 < t" by simp
  with l g show ?thesis by blast
qed

theorem debounce_clock_starts_at_construction_witness:
  "clock_monotone 0 early_save \<and>
   dispatch (init_handler 0) (modified_file ''app.py'') 1 1 = (init_handler 0, []) \<and>
   fire_times (init_handler 0) early_save = [3 / 2]"
proof -
  have m: "clock_monotone 0 early_save" by (simp add: early_save_def)
  have q: "qualifying (modified_file ''app.py'')"
    by (simp add: qualifying_def modified_file_def endswith_def)
  have f: "fire_times (init_handler 0) early_save = [3 / 2]"
    by (simp add: early_save_def modified_file_def init_handler_def dispatch_def
      on_modified_def endswith_def)
  from debounce_clock_starts_at_construction [OF m] q
  have "dispatch (init_handler 0) (modified_file ''app.py'') 1 1 = (init_handler 0, [])"
    by simp
  with m f show ?thesis by simp
qed

text \<open>
  Claim C9 as stated fails: a \<open>Created\<close> event for \<^verbatim>\<open>app.py\<close>, ten time units after
  the handler was constructed, has no effect, while a \<open>Modified\<close> event for the same
  path at the same time calls the callback.
\<close>

theorem created_not_treated_as_modified:
  "snd (dispatch (init_handler 0) (created_file ''app.py'') 10 10) = [] \<and>
   Callback \<in> set (snd (dispatch (init_handler 0) (modified_file ''app.py'') 10 10))"
  by (simp add: dispatch_def on_modified_def on_any_other_def init_handler_def created_file_def
      modified_file_def endswith_def)

text \<open>
  Claim C9, amended. The handler reacts to \<open>Modified\<close> events only: for every event
  of another kind (\<open>Created\<close>, \<open>Deleted\<close>, moved, closed, opened), whatever its
  path, the state of the handler and the clock readings, the callback is not called and
  \<open>last_reload\<close> is unchanged.
\<close>

theorem only_modified_events_signal:
  assumes "event_type event \<noteq> Modified"
  shows "dispatch h event now later = (h, [])"
  using assms by (cases "event_type event") (simp_all add: dispatch_def on_any_other_def)

theorem only_modified_events_signal_witness:
  "event_type (created_file ''app.py'') \<noteq> Modified \<and>
   dispatch (init_handler 0) (created_file ''app.py'') 10 10 = (init_handler 0, [])"
proof -
  have k: "event_type (created_file ''app.py'') \<noteq> Modified"
    by (simp add: created_file_def)
  from only_modified_events_signal [OF k] k show ?thesis by simp
qed


section \<open>The supervising loop\<close>

text \<open>
  A delivery in two halves with nothing in between is the delivery in one step.
\<close>

lemma stop_child_fields:
  "spawned (stop_child g s) = spawned s" "dropped (stop_child g s) = dropped s"
  "event_handler (stop_child g s) = event_handler s" "observer (stop_child g s) = observer s"
  "control (stop_child g s) = control s" "restarting (stop_child g s) = restarting s"
  by (simp_all add: stop_child_def Let_def split: option.splits sum.splits timeout_expired.splits)

lemma finish_begin_restart:
  "\<not> restarting s \<Longrightarrow> finish_restart (begin_restart g s) = restart_process g s"
  by (simp add: finish_restart_def begin_restart_def restart_process_def run_app_def
      assign_process_def stop_child_fields)

lemma halves_make_delivery:
  assumes "\<not> restarting s"
  shows "step (step s (Begin ev now g)) (Finish later) = step s (Deliver ev now later g)"
proof (cases "observer s = Observer_started")
  case False
  with assms show ?thesis by simp
next
  case True
  show ?thesis
  proof (cases "event_handler s")
    case None
    with True assms show ?thesis by (simp add: begin_delivery_def deliver_def)
  next
    case (Some h)
    show ?thesis
    proof (cases "Callback \<in> set (snd (dispatch h ev now later))")
      case False
      then have "dispatch h ev now later = (h, [])" by (rule quiet_dispatch)
      moreover from False have "Callback \<notin> set (snd (dispatch h ev now now))"
        by (simp add: dispatch_effects [of h ev now now later])
      then have "dispatch h ev now now = (h, [])" by (rule quiet_dispatch)
      ultimately show ?thesis
        using True Some assms by (simp add: begin_delivery_def deliver_def)
    next
      case c: True
      then have fire: "dispatch h ev now later =
            (h\<lparr>last_reload := later\<rparr>,
             [Print (CHR 0x0A # ''[Reloader] detected change in '' @ src_path ev), Callback])"
        by (rule firing_dispatch)
      from c have "Callback \<in> set (snd (dispatch h ev now now))"
        by (simp add: dispatch_effects [of h ev now now later])
      then have fire': "dispatch h ev now now =
            (h\<lparr>last_reload := now\<rparr>,
             [Print (CHR 0x0A # ''[Reloader] detected change in '' @ src_path ev), Callback])"
        by (rule firing_dispatch)
      let ?s1 = "s\<lparr>trace := trace s @
          [Stdout (CHR 0x0A # ''[Reloader] detected change in '' @ src_path ev)]\<rparr>"
      have r: "\<not> restarting ?s1" using assms by simp
      have b: "step s (Begin ev now g) = begin_restart g ?s1"
        using True Some assms fire' by (simp add: begin_delivery_def)
      have d: "step s (Deliver ev now later g) =
          (restart_process g ?s1)\<lparr>event_handler := Some (h\<lparr>last_reload := later\<rparr>)\<rparr>"
        using True Some fire by (simp add: deliver_def)
      have "step (begin_restart g ?s1) (Finish later) =
          (finish_restart (begin_restart g ?s1))
            \<lparr>event_handler := Some (h\<lparr>last_reload := later\<rparr>)\<rparr>"
        using Some by (simp add: finish_delivery_def begin_restart_def stop_child_fields)
      with b d finish_begin_restart [OF r] show ?thesis by simp
    qed
  qed
qed

text \<open>
  Once \<^verbatim>\<open>main\<close> has left its loop and the observer is stopped, with no restart under
  way, no event changes the control state, the observer, the number of children started
  or the trace.
\<close>

lemma stopped_step:
  "control s = Returned \<Longrightarrow> observer s = Observer_stopped \<Longrightarrow> \<not> restarting s \<Longrightarrow>
   control (step s e) = Returned \<and> observer (step s e) = Observer_stopped \<and>
   \<not> restarting (step s e) \<and>
   spawned (step s e) = spawned s \<and> trace (step s e) = trace s \<and>
   map_option pid (process (step s e)) = map_option pid (process s)"
  by (cases e; cases "process s") (auto simp: child_exits_def split: option.splits)

lemma stopped_run:
  "control s = Returned \<Longrightarrow> observer s = Observer_stopped \<Longrightarrow> \<not> restarting s \<Longrightarrow>
   control (run s es) = Returned \<and> observer (run s es) = Observer_stopped \<and>
   spawned (run s es) = spawned s \<and> trace (run s es) = trace s \<and>
   map_option pid (process (run s es)) = map_option pid (process s)"
proof (induction es arbitrary: s)
  case Nil
  then show ?case by simp
next
  case (Cons e es)
  from stopped_step [OF Cons.prems, of e] Cons.IH [of "step s e"] show ?case by simp
qed

lemma poll_pid: "pid (fst (poll pr)) = pid pr"
  by (simp add: poll_def split: option.splits)

lemma clean_exit_tick:
  "control s = Looping \<Longrightarrow> process s = Some pr \<Longrightarrow> snd (poll pr) = Some 0 \<Longrightarrow>
   step s Tick =
     s\<lparr>process := Some (fst (poll pr)),
       trace := trace s @ [Stdout ''[Reloader] App exited cleanly.'', Observer_stop, Observer_join],
       observer := Observer_stopped, control := Returned\<rparr>"
  by (cases "poll pr") (simp add: loop_body_def)

lemma main_started:
  "main True t0 =
     \<lparr>spawned = 1, process = Some (new_Popen 0), dropped = [],
      event_handler = Some (init_handler t0), observer = Observer_started, control = Looping,
      trace = [Stdout ''[Reloader] Starting development monitor...'', Popen_new 0,
               Observer_start],
      restarting = False\<rparr>"
  by (simp add: main_def run_app_def assign_process_def)

text \<open>
  Claim C2 as stated fails, in two runs of a freshly started reloader whose application
  exits with code 0. In the first, \<^verbatim>\<open>app.py\<close> is modified after the exit and before
  the next pass of the loop: the handler restarts the application, the pass of the loop
  polls the new child, and the reloader goes on with a second child and a running
  observer. In the second, the pass of the loop falls inside the restart: it finds exit
  code 0, stops the observer and leaves the loop, and the restart then starts a second
  child, after \<^verbatim>\<open>observer.stop()\<close>.
\<close>

theorem clean_exit_overtaken_by_change:
  "control (run (main True 0) change_before_poll) = Looping \<and>
   observer (run (main True 0) change_before_poll) = Observer_started \<and>
   spawned (run (main True 0) change_before_poll) = 2 \<and>
   control (run (main True 0) poll_inside_restart) = Returned \<and>
   observer (run (main True 0) poll_inside_restart) = Observer_stopped \<and>
   spawned (run (main True 0) poll_inside_restart) = 2 \<and>
   trace (run (main True 0) poll_inside_restart) =
     [Stdout ''[Reloader] Starting development monitor...'', Popen_new 0, Observer_start,
      Stdout (CHR 0x0A # ''[Reloader] detected change in app.py''),
      Stdout ''[Reloader] Restarting app...'', Popen_terminate 0, Popen_wait 0,
      Stdout ''[Reloader] App exited cleanly.'', Observer_stop, Observer_join,
      Popen_new 1]"
proof -
  have d: "dispatch (init_handler 0) (modified_file ''app.py'') 5 t =
      (\<lparr>last_reload = t\<rparr>,
       [Print (CHR 0x0A # ''[Reloader] detected change in app.py''), Callback])" for t
    by (simp add: dispatch_def on_modified_def modified_file_def endswith_def init_handler_def)
  have a: "control (run (main True 0) change_before_poll) = Looping \<and>
      observer (run (main True 0) change_before_poll) = Observer_started \<and>
      spawned (run (main True 0) change_before_poll) = 2"
    by (simp add: change_before_poll_def main_started deliver_def d restart_process_def
        stop_child_def run_app_def assign_process_def child_exits_def new_Popen_def
        terminate_def wait_def poll_def loop_body_def)
  have b: "run (main True 0) poll_inside_restart =
      \<lparr>spawned = 2, process = Some (new_Popen 1),
       dropped = [\<lparr>pid = 0, exit_status = Some 0, returncode = Some 0, sigterm_sent = False,
                   sigkill_sent = False\<rparr>],
       event_handler = Some \<lparr>last_reload = 6\<rparr>, observer = Observer_stopped,
       control = Returned,
       trace = [Stdout ''[Reloader] Starting development monitor...'', Popen_new 0,
                Observer_start,
                Stdout (CHR 0x0A # ''[Reloader] detected change in app.py''),
                Stdout ''[Reloader] Restarting app...'', Popen_terminate 0, Popen_wait 0,
                Stdout ''[Reloader] App exited cleanly.'', Observer_stop, Observer_join,
                Popen_new 1],
       restarting = False\<rparr>"
    by (simp add: poll_inside_restart_def main_started begin_delivery_def
        d [unfolded init_handler_def] begin_restart_def
        stop_child_def finish_delivery_def finish_restart_def run_app_def assign_process_def
        child_exits_def new_Popen_def terminate_def wait_def poll_def loop_body_def
        init_handler_def)
  from a show ?thesis unfolding b by simp
qed

text \<open>
  Claim C2, amended. When the reloader is in its loop, no restart is under way, and the
  poll of the current child in a pass of the loop finds that the child has exited with
  code 0, that pass stops the observer and leaves the loop, and \<^verbatim>\<open>main\<close> returns. That
  state is terminal: whatever events follow (file changes, passes of the loop,
  interrupts), \<^verbatim>\<open>main\<close> stays returned, the observer stays stopped, no child is started
  and nothing more is done.
\<close>

theorem clean_exit_stops_supervision:
  assumes "control s = Looping" and "process s = Some pr" and "snd (poll pr) = Some 0"
    and "\<not> restarting s"
  shows "control (step s Tick) = Returned \<and>
         observer (step s Tick) = Observer_stopped \<and>
         trace (step s Tick) =
           trace s @ [Stdout ''[Reloader] App exited cleanly.'', Observer_stop, Observer_join] \<and>
         spawned (step s Tick) = spawned s \<and>
         (\<forall>events.
            control (run (step s Tick) events) = Returned \<and>
            observer (run (step s Tick) events) = Observer_stopped \<and>
            spawned (run (step s Tick) events) = spawned s \<and>
            trace (run (step s Tick) events) = trace (step s Tick) \<and>
            map_option pid (process (run (step s Tick) events)) = Some (pid pr))"
proof -
  note tick = clean_exit_tick [OF assms(1-3)]
  have c: "control (step s Tick) = Returned" and o: "observer (step s Tick) = Observer_stopped"
    and r: "\<not> restarting (step s Tick)"
    unfolding tick using assms(4) by simp_all
  have t: "trace (step s Tick) =
      trace s @ [Stdout ''[Reloader] App exited cleanly.'', Observer_stop, Observer_join]"
    and n: "spawned (step s Tick) = spawned s"
    and p: "map_option pid (process (step s Tick)) = Some (pid pr)"
    unfolding tick by (simp_all add: poll_pid)
  from stopped_run [OF c o r] c o t n p show ?thesis by simp
qed

theorem clean_exit_stops_supervision_witness:
  "control clean_exit_example = Looping \<and>
   process clean_exit_example = Some ((new_Popen 0)\<lparr>exit_status := Some 0\<rparr>) \<and>
   snd (poll ((new_Popen 0)\<lparr>exit_status := Some 0\<rparr>)) = Some 0 \<and>
   \<not> restarting clean_exit_example \<and>
   control (step clean_exit_example Tick) = Returned \<and>
   observer (step clean_exit_example Tick) = Observer_stopped \<and>
   spawned (run (step clean_exit_example Tick)
              [Deliver (modified_file ''app.py'') 5 5 None, Tick,
               Begin (modified_file ''app.py'') 7 None, Finish 8]) = 1"
proof -
  have l: "control clean_exit_example = Looping"
    by (simp add: clean_exit_example_def main_started)
  have p: "process clean_exit_example = Some ((new_Popen 0)\<lparr>exit_status := Some 0\<rparr>)"
    by (simp add: clean_exit_example_def main_started child_exits_def new_Popen_def)
  have e: "snd (poll ((new_Popen 0)\<lparr>exit_status := Some 0\<rparr>)) = Some 0"
    by (simp add: poll_def new_Popen_def)
  have r: "\<not> restarting clean_exit_example"
    by (simp add: clean_exit_example_def main_started)
  have n: "spawned clean_exit_example = 1"
    by (simp add: clean_exit_example_def main_started)
  note c = clean_exit_stops_supervision [OF l p e r]
  from c have c1: "control (step clean_exit_example Tick) = Returned"
    by (rule conjunct1)
  from c have c2: "observer (step clean_exit_example Tick) = Observer_stopped"
    by (elim conjE)
  from c have c3: "spawned (run (step clean_exit_example Tick)
              [Deliver (modified_file ''app.py'') 5 5 None, Tick,
               Begin (modified_file ''app.py'') 7 None, Finish 8]) = spawned clean_exit_example"
    by blast
  from l p e r c1 c2 c3 [unfolded n] show ?thesis by (intro conjI)
qed

text \<open>
  A child that has exited with a code other than 0: the events that are not a change
  signal leave the reloader as it is, up to the bookkeeping inside the \<^verbatim>\<open>Popen\<close>
  object, and a restart neither signals nor waits for such a child.
\<close>

lemma poll_again: "snd (poll pr) = Some c \<Longrightarrow> poll (fst (poll pr)) = (fst (poll pr), Some c)"
  by (auto simp: poll_def split: option.splits)

lemma poll_child_exits: "snd (poll pr) = Some c \<Longrightarrow> snd (poll (child_exits c' pr)) = Some c"
  by (auto simp: poll_def child_exits_def split: option.splits)

lemma pid_child_exits: "pid (child_exits c' pr) = pid pr"
  by (simp add: child_exits_def split: option.splits)

lemma quiet_step:
  assumes "control s = Looping" and "observer s = Observer_started"
    and "event_handler s = Some h" and "process s = Some pr"
    and "snd (poll pr) = Some c" and "c \<noteq> 0" and "quiet h e"
  shows "\<exists>pr'. step s e = s\<lparr>process := Some pr'\<rparr> \<and> pid pr' = pid pr \<and> snd (poll pr') = Some c"
proof (cases e)
  case Tick
  from assms(5) obtain q where "poll pr = (q, Some c)" by (cases "poll pr") simp
  with assms Tick have "step s e = s\<lparr>process := Some (fst (poll pr))\<rparr>"
    by (simp add: loop_body_def)
  moreover have "pid (fst (poll pr)) = pid pr" by (rule poll_pid)
  moreover from assms(5) have "snd (poll (fst (poll pr))) = Some c" by (simp add: poll_again)
  ultimately show ?thesis by blast
next
  case (Deliver ev now later grace_exit)
  with assms(7) have "dispatch h ev now later = (h, [])" by (simp add: quiet_dispatch)
  with assms Deliver have "step s e = s\<lparr>process := Some pr\<rparr>"
    by (simp add: deliver_def)
  with assms(5) show ?thesis by blast
next
  case (ChildExit c')
  with assms have "step s e = s\<lparr>process := Some (child_exits c' pr)\<rparr>" by simp
  with assms(5) show ?thesis by (blast intro: poll_child_exits pid_child_exits)
next
  case KeyboardInterrupt
  with assms(7) show ?thesis by simp
next
  case (Begin ev now grace_exit)
  with assms(7) have "dispatch h ev now now = (h, [])" by (simp add: quiet_dispatch)
  with assms Begin have "step s e = s\<lparr>process := Some pr\<rparr>"
    by (simp add: begin_delivery_def)
  with assms(5) show ?thesis by blast
next
  case (Finish later)
  with assms(7) show ?thesis by simp
qed

lemma quiet_run:
  assumes "control s = Looping" and "observer s = Observer_started"
    and "event_handler s = Some h" and "process s = Some pr"
    and "snd (poll pr) = Some c" and "c \<noteq> 0" and "list_all (quiet h) es"
  shows "\<exists>pr'. run s es = s\<lparr>process := Some pr'\<rparr> \<and> pid pr' = pid pr \<and> snd (poll pr') = Some c"
  using assms
proof (induction es arbitrary: s pr)
  case Nil
  then have "run s [] = s\<lparr>process := Some pr\<rparr>" by simp
  with Nil.prems(5) show ?case by blast
next
  case (Cons e es)
  from Cons.prems have "quiet h e" and rest: "list_all (quiet h) es" by simp_all
  from quiet_step [OF Cons.prems(1-6) this(1)]
  obtain pr1 where s1: "step s e = s\<lparr>process := Some pr1\<rparr>"
    and p1: "pid pr1 = pid pr" and c1: "snd (poll pr1) = Some c"
    by blast
  have "\<exists>pr'. run (step s e) es = (step s e)\<lparr>process := Some pr'\<rparr> \<and>
      pid pr' = pid pr1 \<and> snd (poll pr') = Some c"
    using Cons.prems(1-3,6) rest c1 by (intro Cons.IH) (simp_all add: s1)
  then show ?case by (auto simp: s1 p1)
qed

lemma restart_after_exit:
  assumes "process s = Some pr" and "snd (poll pr) = Some c"
  shows "restart_process grace_exit s =
     s\<lparr>spawned := Suc (spawned s),
       process := Some (new_Popen (spawned s)),
       dropped := dropped s @ [fst (poll pr)],
       trace := trace s @ [Stdout ''[Reloader] Restarting app...'', Popen_terminate (pid pr),
                           Popen_wait (pid pr), Popen_new (spawned s)]\<rparr>"
proof -
  from assms(2) obtain q where "poll pr = (q, Some c)" by (cases "poll pr") simp
  then have t: "terminate pr = fst (poll pr)" by (simp add: terminate_def)
  from assms(2) have w: "wait grace_exit (fst (poll pr)) = Inr (fst (poll pr))"
    by (simp add: wait_def poll_again)
  show ?thesis
    by (simp add: restart_process_def stop_child_def assms(1) t w run_app_def
        assign_process_def)
qed

text \<open>
  Claim C3. When the reloader is in its loop with the observer running and the poll of
  the current child finds an exit code other than 0, then over any events that are not a
  change signal (passes of the loop, events the handler ignores) no child is started,
  nothing is done, the loop and the observer keep running and the child stays down; on
  the next change signal a new child is started, whose handle differs from that of the
  crashed one and which is running, and the loop and the observer keep running.
\<close>

theorem crash_waits_for_next_change:
  assumes "control s = Looping" and "observer s = Observer_started"
    and "event_handler s = Some h" and "process s = Some pr"
    and "snd (poll pr) = Some c" and "c \<noteq> 0" and "pid pr < spawned s"
    and "list_all (quiet h) events"
    and "Callback \<in> set (snd (dispatch h ev now later))"
  shows "spawned (run s events) = spawned s \<and>
         trace (run s events) = trace s \<and>
         control (run s events) = Looping \<and>
         observer (run s events) = Observer_started \<and>
         map_option pid (process (run s events)) = Some (pid pr) \<and>
         map_option (\<lambda>p. snd (poll p)) (process (run s events)) = Some (Some c) \<and>
         process (step (run s events) (Deliver ev now later grace_exit)) =
           Some (new_Popen (spawned s)) \<and>
         pid (new_Popen (spawned s)) \<noteq> pid pr \<and>
         snd (poll (new_Popen (spawned s))) = None \<and>
         spawned (step (run s events) (Deliver ev now later grace_exit)) = Suc (spawned s) \<and>
         control (step (run s events) (Deliver ev now later grace_exit)) = Looping \<and>
         observer (step (run s events) (Deliver ev now later grace_exit)) = Observer_started \<and>
         trace (step (run s events) (Deliver ev now later grace_exit)) =
           trace s @
           [Stdout (CHR 0x0A # ''[Reloader] detected change in '' @ src_path ev),
            Stdout ''[Reloader] Restarting app...'',
            Popen_terminate (pid pr), Popen_wait (pid pr), Popen_new (spawned s)]"
proof -
  from quiet_run [OF assms(1-6,8)]
  obtain pr1 where r: "run s events = s\<lparr>process := Some pr1\<rparr>"
    and p1: "pid pr1 = pid pr" and c1: "snd (poll pr1) = Some c"
    by blast
  let ?s1 = "s\<lparr>process := Some pr1\<rparr>"
  let ?s2 = "?s1\<lparr>trace := trace s @
      [Stdout (CHR 0x0A # ''[Reloader] detected change in '' @ src_path ev)]\<rparr>"
  have "process ?s2 = Some pr1" by simp
  note restart = restart_after_exit [OF this c1, of grace_exit]
  have d: "step ?s1 (Deliver ev now later grace_exit) =
      (restart_process grace_exit ?s2)\<lparr>event_handler := Some (h\<lparr>last_reload := later\<rparr>)\<rparr>"
    using assms(2,3) by (simp add: deliver_def firing_dispatch [OF assms(9)])
  have quiet_part: "spawned (run s events) = spawned s \<and>
         trace (run s events) = trace s \<and>
         control (run s events) = Looping \<and>
         observer (run s events) = Observer_started \<and>
         map_option pid (process (run s events)) = Some (pid pr) \<and>
         map_option (\<lambda>p. snd (poll p)) (process (run s events)) = Some (Some c)"
    using assms(1,2) by (simp add: r p1 c1)
  have fresh: "pid (new_Popen (spawned s)) \<noteq> pid pr \<and> snd (poll (new_Popen (spawned s))) = None"
    using assms(7) by (simp add: new_Popen_def poll_def)
  have restart_part:
    "process (step (run s events) (Deliver ev now later grace_exit)) =
           Some (new_Popen (spawned s)) \<and>
     spawned (step (run s events) (Deliver ev now later grace_exit)) = Suc (spawned s) \<and>
     control (step (run s events) (Deliver ev now later grace_exit)) = Looping \<and>
     observer (step (run s events) (Deliver ev now later grace_exit)) = Observer_started \<and>
     trace (step (run s events) (Deliver ev now later grace_exit)) =
           trace s @
           [Stdout (CHR 0x0A # ''[Reloader] detected change in '' @ src_path ev),
            Stdout ''[Reloader] Restarting app...'',
            Popen_terminate (pid pr), Popen_wait (pid pr), Popen_new (spawned s)]"
    unfolding r d restart using assms(1,2) by (simp add: p1)
  from quiet_part fresh restart_part show ?thesis by blast
qed

lemma crash_example_state:
  "crash_example =
     \<lparr>spawned = 1, process = Some crashed_child, dropped = [],
      event_handler = Some (init_handler 0), observer = Observer_started, control = Looping,
      trace = [Stdout ''[Reloader] Starting development monitor...'', Popen_new 0,
               Observer_start],
      restarting = False\<rparr>"
  by (simp add: crash_example_def main_started child_exits_def new_Popen_def loop_body_def
      poll_def crashed_child_def)

theorem crash_waits_for_next_change_witness:
  "control crash_example = Looping \<and>
   observer crash_example = Observer_started \<and>
   event_handler crash_example = Some (init_handler 0) \<and>
   process crash_example = Some crashed_child \<and>
   snd (poll crashed_child) = Some 1 \<and>
   pid crashed_child < spawned crash_example \<and>
   list_all (quiet (init_handler 0)) quiet_events \<and>
   Callback \<in> set (snd (dispatch (init_handler 0) (modified_file ''app.py'') 7 8)) \<and>
   spawned (run crash_example quiet_events) = 1 \<and>
   process (step (run crash_example quiet_events) (Deliver (modified_file ''app.py'') 7 8 None)) =
     Some (new_Popen 1)"
proof -
  have a: "control crash_example = Looping" "observer crash_example = Observer_started"
    "event_handler crash_example = Some (init_handler 0)"
    "process crash_example = Some crashed_child"
    by (simp_all add: crash_example_state)
  have b: "snd (poll crashed_child) = Some 1" "(1::int) \<noteq> 0"
    "pid crashed_child < spawned crash_example"
    by (simp_all add: crash_example_state crashed_child_def poll_def)
  have q: "list_all (quiet (init_handler 0)) quiet_events"
    by (simp add: quiet_events_def dispatch_def on_any_other_def on_modified_def created_file_def
        modified_file_def endswith_def)
  have f: "Callback \<in> set (snd (dispatch (init_handler 0) (modified_file ''app.py'') 7 8))"
    by (simp add: dispatch_def on_modified_def modified_file_def endswith_def init_handler_def)
  have n: "spawned crash_example = 1" by (simp add: crash_example_state)
  note r = crash_waits_for_next_change [OF a b q f, of None]
  from r have s1: "spawned (run crash_example quiet_events) = spawned crash_example"
    by (rule conjunct1)
  from r have s2: "process (step (run crash_example quiet_events)
      (Deliver (modified_file ''app.py'') 7 8 None)) = Some (new_Popen (spawned crash_example))"
    by (elim conjE)
  from a b(1,3) q f s1 [unfolded n] s2 [unfolded n] show ?thesis by (intro conjI)
qed

text \<open>
  The restart of a running child: when the child terminates within the two seconds it
  has been reaped when the new child is started; when it does not, it is sent the kill
  signal, and the new child is started with no further \<^verbatim>\<open>wait\<close>.
\<close>

lemma restart_of_running_child:
  assumes "process s = Some pr" and "snd (poll pr) = None"
  shows "restart_process (Some c) s =
     s\<lparr>spawned := Suc (spawned s),
       process := Some (new_Popen (spawned s)),
       dropped := dropped s @
         [pr\<lparr>sigterm_sent := True, exit_status := Some c, returncode := Some c\<rparr>],
       trace := trace s @ [Stdout ''[Reloader] Restarting app...'', Popen_terminate (pid pr),
                           Popen_wait (pid pr), Popen_new (spawned s)]\<rparr>"
    and "restart_process None s =
     s\<lparr>spawned := Suc (spawned s),
       process := Some (new_Popen (spawned s)),
       dropped := dropped s @ [pr\<lparr>sigterm_sent := True, sigkill_sent := True\<rparr>],
       trace := trace s @ [Stdout ''[Reloader] Restarting app...'', Popen_terminate (pid pr),
                           Popen_wait (pid pr), Popen_kill (pid pr), Popen_new (spawned s)]\<rparr>"
proof -
  from assms(2) have p: "poll pr = (pr, None)"
    by (auto simp: poll_def split: option.splits)
  then have t: "terminate pr = pr\<lparr>sigterm_sent := True\<rparr>" by (simp add: terminate_def)
  from p have p': "poll (pr\<lparr>sigterm_sent := True\<rparr>) = (pr\<lparr>sigterm_sent := True\<rparr>, None)"
    by (auto simp: poll_def split: option.splits)
  show "restart_process (Some c) s =
     s\<lparr>spawned := Suc (spawned s),
       process := Some (new_Popen (spawned s)),
       dropped := dropped s @
         [pr\<lparr>sigterm_sent := True, exit_status := Some c, returncode := Some c\<rparr>],
       trace := trace s @ [Stdout ''[Reloader] Restarting app...'', Popen_terminate (pid pr),
                           Popen_wait (pid pr), Popen_new (spawned s)]\<rparr>"
    by (simp add: restart_process_def stop_child_def assms(1) t wait_def p' run_app_def
        assign_process_def)
  show "restart_process None s =
     s\<lparr>spawned := Suc (spawned s),
       process := Some (new_Popen (spawned s)),
       dropped := dropped s @ [pr\<lparr>sigterm_sent := True, sigkill_sent := True\<rparr>],
       trace := trace s @ [Stdout ''[Reloader] Restarting app...'', Popen_terminate (pid pr),
                           Popen_wait (pid pr), Popen_kill (pid pr), Popen_new (spawned s)]\<rparr>"
    by (simp add: restart_process_def stop_child_def assms(1) t wait_def kill_def p' run_app_def
        assign_process_def)
qed

text \<open>
  Claim C4, evaluated where it fails. A restart sends the termination request, waits up
  to two seconds and sends the kill signal to a child that has not terminated by then;
  but after the kill signal the new child is started at once. For a child that ignores
  the termination request the calls are terminate, wait, kill, spawn, and when the new
  child (handle 1) has been started the old one (handle 0) has not been waited for: its
  exit code has not been collected, and the reloader has two children it has not reaped.
\<close>

theorem forced_kill_is_not_awaited:
  "trace stubborn_restart =
     [Stdout ''[Reloader] Starting development monitor...'', Popen_new 0, Observer_start,
      Stdout (CHR 0x0A # ''[Reloader] detected change in app.py''),
      Stdout ''[Reloader] Restarting app...'',
      Popen_terminate 0, Popen_wait 0, Popen_kill 0, Popen_new 1] \<and>
   dropped stubborn_restart =
     [\<lparr>pid = 0, exit_status = None, returncode = None, sigterm_sent = True,
       sigkill_sent = True\<rparr>] \<and>
   process stubborn_restart = Some (new_Popen 1) \<and>
   map pid (unreaped stubborn_restart) = [0, 1]"
proof -
  have d: "dispatch (init_handler 0) (modified_file ''app.py'') 5 7 =
      (\<lparr>last_reload = 7\<rparr>,
       [Print (CHR 0x0A # ''[Reloader] detected change in app.py''), Callback])"
    by (simp add: dispatch_def on_modified_def modified_file_def endswith_def init_handler_def)
  have p: "snd (poll (new_Popen 0)) = None" by (simp add: poll_def new_Popen_def)
  show ?thesis
    by (simp add: stubborn_restart_def main_started deliver_def d
        restart_of_running_child(2) [OF _ p] unreaped_def new_Popen_def)
qed

text \<open>
  Claim C7 as stated fails: where watchdog is not installed, the program ends on the
  import in line 5, before \<^verbatim>\<open>main\<close> runs; no child has been started and nothing has
  been written to standard output.
\<close>

theorem missing_watchdog_spawns_nothing:
  "spawned (reloader_py False 0) = 0 \<and> process (reloader_py False 0) = None \<and>
   control (reloader_py False 0) = Raised \<and> trace (reloader_py False 0) = []"
  by (simp add: reloader_py_def)

text \<open>
  Claim C7, amended. For every startup where the watchdog library is not available, the
  supervisor ends before any child is spawned: no child application is started, no
  handler or observer is set up, the supervising loop is not entered, and no later event
  starts a child.
\<close>

theorem missing_watchdog_never_spawns:
  "spawned (reloader_py False t0) = 0 \<and>
   process (reloader_py False t0) = None \<and>
   event_handler (reloader_py False t0) = None \<and>
   observer (reloader_py False t0) = Observer_idle \<and>
   control (reloader_py False t0) \<noteq> Looping \<and>
   spawned (run (reloader_py False t0) events) = 0 \<and>
   process (run (reloader_py False t0) events) = None \<and>
   control (run (reloader_py False t0) events) \<noteq> Looping"
proof -
  have inert: "control s \<noteq> Looping \<Longrightarrow> observer s = Observer_idle \<Longrightarrow> process s = None \<Longrightarrow>
      \<not> restarting s \<Longrightarrow>
      spawned (run s es) = spawned s \<and> process (run s es) = None \<and>
      control (run s es) \<noteq> Looping" for s es
  proof (induction es arbitrary: s)
    case Nil
    then show ?case by simp
  next
    case (Cons e es)
    have "control (step s e) \<noteq> Looping \<and> observer (step s e) = Observer_idle \<and>
        process (step s e) = None \<and> \<not> restarting (step s e) \<and>
        spawned (step s e) = spawned s"
      using Cons.prems by (cases e) simp_all
    with Cons.IH [of "step s e"] show ?case by simp
  qed
  have "control (reloader_py False t0) \<noteq> Looping"
    "observer (reloader_py False t0) = Observer_idle"
    "process (reloader_py False t0) = None" "\<not> restarting (reloader_py False t0)"
    "spawned (reloader_py False t0) = 0" "event_handler (reloader_py False t0) = None"
    by (simp_all add: reloader_py_def)
  with inert [of "reloader_py False t0" events] show ?thesis by simp
qed

theorem missing_watchdog_never_spawns_witness:
  "process (reloader_py False 3) = None \<and>
   spawned (run (reloader_py False 3)
              [Deliver (modified_file ''app.py'') 5 5 None, Tick,
               Begin (modified_file ''app.py'') 7 None, Finish 8]) = 0"
  using missing_watchdog_never_spawns
          [of 3 "[Deliver (modified_file ''app.py'') 5 5 None, Tick,
                  Begin (modified_file ''app.py'') 7 None, Finish 8]"]
  by (elim conjE) (intro conjI)


section \<open>The dependency installer\<close>

text \<open>
  Claim C5. When \<^verbatim>\<open>requirements.txt\<close> does not exist, the installer emits
  \<^verbatim>\<open>finished(True)\<close> after two progress messages and returns; it does not call
  \<^verbatim>\<open>Popen\<close>, so no installer process is started.
\<close>

theorem absent_manifest_reports_success:
  "installer_run executable FileNotFoundError popen =
     Some [Progress ''Checking dependencies...'',
           Progress ''requirements.txt not found. Skipping check.'',
           Finished True] \<and>
   (\<forall>argv. Call_Popen argv \<notin> set (the (installer_run executable FileNotFoundError popen)))"
  by (simp add: installer_run_def)

theorem absent_manifest_reports_success_witness:
  "installer_run ''python'' FileNotFoundError (Popen_raises []) =
     Some [Progress ''Checking dependencies...'',
           Progress ''requirements.txt not found. Skipping check.'',
           Finished True]"
  using absent_manifest_reports_success [of "''python''" "Popen_raises []"]
  by (rule conjunct1)

text \<open>
  Two lists that end in two elements each are equal only if the last but one elements
  are.
\<close>

lemma last_but_one_eq: "xs @ [a, b] = ys @ [c, d] \<Longrightarrow> a = c"
proof -
  assume "xs @ [a, b] = ys @ [c, d]"
  then have "(xs @ [a]) @ [b] = (ys @ [c]) @ [d]" by simp
  then have "xs @ [a] = ys @ [c]" by (simp only: append1_eq_conv)
  then show "a = c" by simp
qed

text \<open>
  Claim C6 as stated fails. An installer that starts, prints nothing and exits with code
  1, and whose standard error cannot be decoded, is reported with the progress message
  \<^verbatim>\<open>Failed to run pip: \<close> and \<^verbatim>\<open>finished(False)\<close>, as is an installer that could
  not be started; what it wrote to its standard error is not reported.
\<close>

theorem started_installer_reported_as_start_failure:
  "installer_run ''python'' (Opened []) (Popen_started silent_failure undecodable) =
     Some [Progress ''Checking dependencies...'',
           Progress ''Installing/Verifying dependencies via pip...'',
           Call_Popen (pip_command ''python''),
           Progress ''Failed to run pip: codec can't decode byte 0xff in position 0'',
           Finished False] \<and>
   installer_run ''python'' (Opened []) (Popen_raises ''[Errno 2] No such file or directory'') =
     Some [Progress ''Checking dependencies...'',
           Progress ''Installing/Verifying dependencies via pip...'',
           Call_Popen (pip_command ''python''),
           Progress ''Failed to run pip: [Errno 2] No such file or directory'',
           Finished False]"
  by (simp add: installer_run_def silent_failure_def undecodable_def)

text \<open>
  Claim C6, amended. When the \<^verbatim>\<open>Popen\<close> call raises, the installer emits the progress
  message \<^verbatim>\<open>Failed to run pip: \<close> followed by the text of the exception, and then
  \<^verbatim>\<open>finished(False)\<close>. When the installer process starts, its output and its standard
  error are read, and it exits with a code other than 0, the installer emits the output
  lines, then the progress message \<^verbatim>\<open>Error: \<close> followed by the text of the standard
  error, and then \<^verbatim>\<open>finished(False)\<close>. The verdict is the same in both; the two
  failure messages are never equal, and neither are the two sequences of signals, so it
  is by the progress message that a consumer of the signals can tell these two outcomes
  apart.
\<close>

theorem start_failure_distinct_from_install_failure:
  assumes "read_loop passes = Some (shown, Inr rc)" and "rc \<noteq> 0"
  shows "installer_run executable (Opened lines) (Popen_raises e) =
           Some [Progress ''Checking dependencies...'',
                 Progress ''Installing/Verifying dependencies via pip...'',
                 Call_Popen (pip_command executable),
                 Progress (''Failed to run pip: '' @ e), Finished False] \<and>
         installer_run executable (Opened lines) (Popen_started passes (Read text)) =
           Some ([Progress ''Checking dependencies...'',
                  Progress ''Installing/Verifying dependencies via pip...'',
                  Call_Popen (pip_command executable)] @ shown @
                 [Progress (''Error: '' @ text), Finished False]) \<and>
         ''Failed to run pip: '' @ e \<noteq> ''Error: '' @ text \<and>
         installer_run executable (Opened lines) (Popen_raises e) \<noteq>
         installer_run executable (Opened lines) (Popen_started passes (Read text))"
proof -
  let ?before = "[Progress ''Checking dependencies...'',
                  Progress ''Installing/Verifying dependencies via pip...'',
                  Call_Popen (pip_command executable)]"
  have a: "installer_run executable (Opened lines) (Popen_raises e) =
           Some (?before @ [Progress (''Failed to run pip: '' @ e), Finished False])"
    by (simp add: installer_run_def)
  have b: "installer_run executable (Opened lines) (Popen_started passes (Read text)) =
           Some (?before @ shown @ [Progress (''Error: '' @ text), Finished False])"
    using assms by (simp add: installer_run_def)
  have c: "''Failed to run pip: '' @ e \<noteq> ''Error: '' @ text" by simp
  have d: "installer_run executable (Opened lines) (Popen_raises e) \<noteq>
         installer_run executable (Opened lines) (Popen_started passes (Read text))"
  proof
    assume "installer_run executable (Opened lines) (Popen_raises e) =
         installer_run executable (Opened lines) (Popen_started passes (Read text))"
    with a b have "?before @ [Progress (''Failed to run pip: '' @ e), Finished False] =
        (?before @ shown) @ [Progress (''Error: '' @ text), Finished False]"
      by simp
    then have "Progress (''Failed to run pip: '' @ e) = Progress (''Error: '' @ text)"
      by (rule last_but_one_eq)
    with c show False by simp
  qed
  from a b c d show ?thesis by simp
qed

theorem start_failure_distinct_from_install_failure_witness:
  "read_loop failing_install = Some ([Progress ''Collecting nosuchpkg''], Inr 1) \<and>
   (1::int) \<noteq> 0 \<and>
   installer_run ''python'' (Opened []) (Popen_raises ''[Errno 2] No such file or directory'') =
     Some [Progress ''Checking dependencies...'',
           Progress ''Installing/Verifying dependencies via pip...'',
           Call_Popen (pip_command ''python''),
           Progress ''Failed to run pip: [Errno 2] No such file or directory'', Finished False] \<and>
   installer_run ''python'' (Opened [])
       (Popen_started failing_install (Read ''ERROR: No matching distribution'')) =
     Some [Progress ''Checking dependencies...'',
           Progress ''Installing/Verifying dependencies via pip...'',
           Call_Popen (pip_command ''python''),
           Progress ''Collecting nosuchpkg'',
           Progress ''Error: ERROR: No matching distribution'', Finished False]"
proof -
  have r: "read_loop failing_install = Some ([Progress ''Collecting nosuchpkg''], Inr 1)"
    by (simp add: failing_install_def strip_def isspace_def)
  have n: "(1::int) \<noteq> 0" by simp
  from start_failure_distinct_from_install_failure [OF r n, of "''python''" "[]"
      "''[Errno 2] No such file or directory''" "''ERROR: No matching distribution''"] r n
  show ?thesis by simp
qed

end
